theory Spec2Isabelle
  imports Main "HOL-Library.Word"
begin

section \<open>JavaScript values used by \<open>src/background/libravatar.js\<close>\<close>

text \<open>
  A JavaScript string is a sequence of code units. The addresses, header values and
  preferences handled here are modelled as \<^typ>\<open>string\<close>, that is for code units below 256
  (the Latin-1 range, which contains ASCII); \<open>trim\<close> and \<open>toLowerCase\<close> are written out for
  that range. \<open>undefined\<close> and \<open>null\<close> are \<^const>\<open>None\<close>.
\<close>

type_synonym byte = "8 word"

text \<open>The rejections an awaited promise can raise.\<close>

datatype js_error = NetworkError | TimeoutError | TypeError

text \<open>
  \<open>String.prototype.trim\<close> removes WhiteSpace and LineTerminator code units from both ends:
  below 256 these are TAB, LF, VT, FF, CR, SPACE and NO-BREAK SPACE.
\<close>

definition isWhiteSpace :: "char \<Rightarrow> bool" where
  "isWhiteSpace c = ((of_char c :: nat) \<in> set [9, 10, 11, 12, 13, 32, 160])"

definition trim :: "string \<Rightarrow> string" where
  "trim s = rev (dropWhile isWhiteSpace (rev (dropWhile isWhiteSpace s)))"

text \<open>
  \<open>String.prototype.toLowerCase\<close>: below 256 the code units with a lower-case mapping are
  \<open>A\<close> to \<open>Z\<close> and the Latin-1 capitals 192 to 222 without the multiplication sign 215; each maps
  to the code unit 32 above it.
\<close>

definition lowerChar :: "char \<Rightarrow> char" where
  "lowerChar c =
     (let n = (of_char c :: nat)
      in if (65 \<le> n \<and> n \<le> 90) \<or> (192 \<le> n \<and> n \<le> 214) \<or> (216 \<le> n \<and> n \<le> 222)
         then char_of (n + 32) else c)"

definition toLowerCase :: "string \<Rightarrow> string" where
  "toLowerCase s = map lowerChar s"

text \<open>
  \<open>String.prototype.split\<close> with a separator of one code unit: the segments between the
  occurrences of the separator, in order; the empty string gives one empty segment.
\<close>

fun split :: "char \<Rightarrow> string \<Rightarrow> string list" where
  "split sep [] = [[]]"
| "split sep (c # cs) =
     (if c = sep then [] # split sep cs
      else (case split sep cs of
              [] \<Rightarrow> [[c]]
            | w # ws \<Rightarrow> (c # w) # ws))"

text \<open>Indexing an array: out of range gives \<open>undefined\<close>.\<close>

definition at :: "'a list \<Rightarrow> nat \<Rightarrow> 'a option" where
  "at xs i = (if i < length xs then Some (xs ! i) else None)"

text \<open>
  A number in a template literal. The size is modelled as a natural number, which JavaScript
  prints in decimal (below \<open>10^21\<close>). The source would also take a negative or fractional size,
  or one from \<open>10^21\<close> on, which it prints in exponent notation; these lie outside the model.
\<close>

definition digit :: "nat \<Rightarrow> char" where
  "digit d = char_of (48 + d)"

function numberToString :: "nat \<Rightarrow> string" where
  "numberToString n =
     (if n < 10 then [digit n] else numberToString (n div 10) @ [digit (n mod 10)])"
  by pat_completeness auto
termination
  by (relation "measure (\<lambda>n. n)") auto

declare numberToString.simps [simp del]


section \<open>Data model\<close>

text \<open>
  What \<open>getAvatar\<close> reads of a \<open>Response\<close>: \<open>resp.ok\<close>, \<open>resp.headers.get('content-type')\<close>
  (\<open>null\<close> when the header is absent) and \<open>await resp.blob()\<close>, which gives the bytes of the body
  or rejects.
\<close>

record response =
  ok :: bool
  content_type :: "string option"
  blob :: "js_error + byte list"

text \<open>An entry of \<open>SUPPORTED_CONTENT_TYPES\<close>; \<open>tail: null\<close> is \<^const>\<open>None\<close>.\<close>

record content_type_meta =
  contentType :: string
  signature :: "byte list"
  tail :: "byte list option"

text \<open>The \<open>File\<close> built at the end: its parts, its name and its \<open>type\<close> option.\<close>

record avatar_file =
  file_bits :: "byte list"
  file_name :: string
  file_type :: string

text \<open>The \<open>data\<close> of a discovery answer.\<close>

record dns_data =
  target :: string
  port :: nat

text \<open>
  The three keys \<open>getAvatar\<close> reads from \<open>messenger.storage.sync\<close>, each a string when set; an
  unset key is \<^const>\<open>None\<close>. Where the source tests such a value for truthiness, \<open>undefined\<close>
  and the empty string are falsy.
\<close>

record preferences =
  dohServer :: "string option"
  defaultAvatar :: "string option"
  preferredInstance :: "string option"

text \<open>What one discovery lookup can come to.\<close>

datatype lookup_outcome = Answer dns_data | NoRecord | LookupError

text \<open>
  The surroundings of one call: the preference store, the constants of \<open>../constants.js\<close>, the
  helpers of \<open>./utils.js\<close> that are taken as given (\<open>buildSecureUrl\<close>, \<open>sha256sum\<close>), the DNS
  lookup and the network. Reading a preference and hashing always resolve. \<open>fetch\<close> either
  rejects or resolves to a response; a second attempt is only ever made at a URL different from
  the first, so a function of the URL describes every pair of outcomes.
\<close>

record env =
  storage :: preferences
  DEFAULT_HOST :: string
  DEFAULT_AVATAR :: string
  buildSecureUrl :: "string \<Rightarrow> nat \<Rightarrow> string"
  sha256sum :: "string \<Rightarrow> string"
  lookup :: "string option \<Rightarrow> string \<Rightarrow> lookup_outcome"
  fetch :: "string \<Rightarrow> js_error + response"

text \<open>The effects of a call, in the order they happen.\<close>

datatype event = Fetch string | ReadBlob | SignatureCheck

section \<open>Collaborators outside the source file\<close>

text \<open>
  Modelled from the spec: \<open>queryAvatarService\<close> of \<open>./dns.js\<close>, which is not among the sources.
  The spec gives it as \<open>lookup(domain, resolverEndpoint) -> { target, port } | absent\<close>, a single
  attempt that may fail or time out, whose failure does not propagate as an exception. The value
  is the \<open>data\<close> field that \<open>getAvatar\<close> destructures.
\<close>

definition queryAvatarService :: "env \<Rightarrow> string option \<Rightarrow> string \<Rightarrow> dns_data option" where
  "queryAvatarService env domain server =
     (case lookup env domain server of
        Answer d \<Rightarrow> Some d
      | NoRecord \<Rightarrow> None
      | LookupError \<Rightarrow> None)"

text \<open>
  Modelled from the spec: \<open>doSignaturesMatch\<close> of \<open>./utils.js\<close>, which is not among the sources.
  The spec gives it as \<open>matches(bytes, signature, tail|absent) -> boolean\<close>, pure, on the full
  payload: the first bytes of the body equal the signature and, when a tail is defined, the final
  bytes of the body equal the tail.
\<close>

definition doSignaturesMatch :: "byte list \<Rightarrow> byte list \<Rightarrow> byte list option \<Rightarrow> bool" where
  "doSignaturesMatch bytes sig tl_opt =
     (take (length sig) bytes = sig \<and>
      (case tl_opt of
         None \<Rightarrow> True
       | Some t \<Rightarrow> length t \<le> length bytes \<and> drop (length bytes - length t) bytes = t))"

section \<open>\<open>SUPPORTED_CONTENT_TYPES\<close>\<close>

definition SUPPORTED_CONTENT_TYPES :: "string \<Rightarrow> content_type_meta option" where
  "SUPPORTED_CONTENT_TYPES = map_of
     [(''image/jpg'',
         \<lparr>contentType = ''image/jpeg'', signature = [255, 216], tail = Some [255, 217]\<rparr>),
      (''image/png'',
         \<lparr>contentType = ''image/png'', signature = [137, 80, 78, 71, 13, 10, 26, 10],
          tail = None\<rparr>)]"

section \<open>\<open>getAvatar\<close>\<close>

text \<open>Lines 50 and 51.\<close>

definition normalized :: "string \<Rightarrow> string" where
  "normalized email = toLowerCase (trim email)"

definition domain :: "string \<Rightarrow> string option" where
  "domain email = at (split CHR ''@'' (normalized email)) 1"

text \<open>Lines 52 to 58: \<open>dnsData\<close> stays \<open>undefined\<close> unless a resolver is configured.\<close>

definition dnsData :: "env \<Rightarrow> string \<Rightarrow> dns_data option" where
  "dnsData env email =
     (case dohServer (storage env) of
        None \<Rightarrow> None
      | Some server \<Rightarrow>
          if server \<noteq> [] then queryAvatarService env (domain email) server else None)"

text \<open>Lines 60 and 61.\<close>

definition contactsInstance :: "env \<Rightarrow> string \<Rightarrow> string" where
  "contactsInstance env email =
     (case dnsData env email of
        Some d \<Rightarrow> buildSecureUrl env (target d) (port d)
      | None \<Rightarrow> DEFAULT_HOST env)"

definition emailHash :: "env \<Rightarrow> string \<Rightarrow> string" where
  "emailHash env email = sha256sum env (normalized email)"

text \<open>Lines 63 to 69; \<open>sz\<close> is the parameter \<open>size\<close>.\<close>

definition route :: "env \<Rightarrow> string \<Rightarrow> nat \<Rightarrow> string" where
  "route env email sz =
     (let r = ''/avatar/'' @ emailHash env email @ ''?s='' @ numberToString sz
      in case defaultAvatar (storage env) of
           Some v \<Rightarrow> if v \<noteq> [] then r @ ''&d='' @ v else r
         | None \<Rightarrow> r @ ''&d='' @ DEFAULT_AVATAR env)"

text \<open>
  Line 81, the constant \<open>preferredInstance\<close> of the source (named apart from the preference it
  reads): \<open>instanceOption?.preferredInstance || DEFAULT_HOST\<close>.
\<close>

definition fallbackInstance :: "env \<Rightarrow> string" where
  "fallbackInstance env =
     (case preferredInstance (storage env) of
        Some s \<Rightarrow> if s \<noteq> [] then s else DEFAULT_HOST env
      | None \<Rightarrow> DEFAULT_HOST env)"

text \<open>
  Lines 73 to 77: \<open>try { resp = await fetch(...) } catch (err) {}\<close> leaves \<open>resp\<close> undefined when
  the request rejects. Line 79: \<open>!resp || !resp.ok\<close>.
\<close>

definition attempt :: "env \<Rightarrow> string \<Rightarrow> response option" where
  "attempt env url = (case fetch env url of Inl err \<Rightarrow> None | Inr r \<Rightarrow> Some r)"

definition failed :: "response option \<Rightarrow> bool" where
  "failed resp = (case resp of None \<Rightarrow> True | Some r \<Rightarrow> \<not> ok r)"

text \<open>
  Lines 71 to 94: the response that reaches line 96, with the requests made; \<^const>\<open>None\<close> when
  the function has returned \<open>null\<close> at line 84 or line 92.
\<close>

definition fetchResponse :: "env \<Rightarrow> string \<Rightarrow> nat \<Rightarrow> event list \<times> response option" where
  "fetchResponse env email sz =
     (let first = contactsInstance env email @ route env email sz;
          resp = attempt env first
      in if failed resp then
           (if fallbackInstance env = contactsInstance env email then ([Fetch first], None)
            else (let second = fallbackInstance env @ route env email sz
                  in case fetch env second of
                       Inl err \<Rightarrow> ([Fetch first, Fetch second], None)
                     | Inr r \<Rightarrow> ([Fetch first, Fetch second], Some r)))
         else ([Fetch first], resp))"

text \<open>Lines 123 to 127.\<close>

definition newFile :: "env \<Rightarrow> string \<Rightarrow> content_type_meta \<Rightarrow> byte list \<Rightarrow> avatar_file" where
  "newFile env email m bytes =
     \<lparr>file_bits = bytes,
      file_name = emailHash env email @ ''.'' @
        (case at (split CHR ''/'' (contentType m)) 1 of
           Some ext \<Rightarrow> ext
         | None \<Rightarrow> ''undefined''),
      file_type = contentType m\<rparr>"

text \<open>
  The whole function: the requests and reads it makes, and either the rejection that escapes
  (\<^const>\<open>Inl\<close>) or the value it resolves to, \<open>null\<close> being \<^const>\<open>None\<close>.
\<close>

definition getAvatar :: "env \<Rightarrow> string \<Rightarrow> nat \<Rightarrow> event list \<times> (js_error + avatar_file option)" where
  "getAvatar env email sz =
     (case fetchResponse env email sz of
        (tr, None) \<Rightarrow> (tr, Inr None)
      | (tr, Some resp) \<Rightarrow>
          if \<not> ok resp then (tr, Inr None)
          else (case content_type resp of
                  None \<Rightarrow> (tr, Inr None)
                | Some contentTypeValue \<Rightarrow>
                    if contentTypeValue = [] then (tr, Inr None)
                    else (case SUPPORTED_CONTENT_TYPES contentTypeValue of
                            None \<Rightarrow> (tr, Inr None)
                          | Some m \<Rightarrow>
                              (case blob resp of
                                 Inl err \<Rightarrow> (tr @ [ReadBlob], Inl err)
                               | Inr bytes \<Rightarrow>
                                   if \<not> doSignaturesMatch bytes (signature m) (tail m)
                                   then (tr @ [ReadBlob, SignatureCheck], Inr None)
                                   else (tr @ [ReadBlob, SignatureCheck],
                                         Inr (Some (newFile env email m bytes)))))))"

text \<open>The URLs requested, in order.\<close>

fun fetches :: "event list \<Rightarrow> string list" where
  "fetches [] = []"
| "fetches (Fetch u # es) = u # fetches es"
| "fetches (e # es) = fetches es"


section \<open>Sample surroundings\<close>

text \<open>
  Concrete surroundings on which the results below are run: a stand-in for the hash, no
  resolver, no preference set, and a network on which every request is rejected.
\<close>

definition demo_hash :: "string \<Rightarrow> string" where
  "demo_hash s = ''sha256-of-'' @ s"

definition demo_env :: env where
  "demo_env =
     \<lparr>storage = \<lparr>dohServer = None, defaultAvatar = None, preferredInstance = None\<rparr>,
      DEFAULT_HOST = ''https://default.example'',
      DEFAULT_AVATAR = ''identicon'',
      buildSecureUrl = (\<lambda>t p. ''https://'' @ t @ '':'' @ numberToString p),
      sha256sum = demo_hash,
      lookup = (\<lambda>d s. NoRecord),
      fetch = (\<lambda>u. Inl NetworkError)\<rparr>"

text \<open>A preferred instance is set, and every request is answered with an error status.\<close>

definition mirror_env :: env where
  "mirror_env = demo_env
     \<lparr>storage := \<lparr>dohServer = None, defaultAvatar = None,
                   preferredInstance = Some ''https://mirror.example''\<rparr>,
      fetch := (\<lambda>u. Inr \<lparr>ok = False, content_type = None, blob = Inr []\<rparr>)\<rparr>"

text \<open>A preferred instance is set, and every request is rejected.\<close>

definition offline_env :: env where
  "offline_env = demo_env
     \<lparr>storage := \<lparr>dohServer = None, defaultAvatar = None,
                   preferredInstance = Some ''https://mirror.example''\<rparr>\<rparr>"

text \<open>A resolver is configured, and every lookup fails.\<close>

definition doh_env :: env where
  "doh_env = demo_env
     \<lparr>storage := \<lparr>dohServer = Some ''https://doh.example/dns-query'', defaultAvatar = None,
                   preferredInstance = None\<rparr>,
      lookup := (\<lambda>d s. LookupError)\<rparr>"

text \<open>Every request is answered with the given response.\<close>

definition serving_env :: "response \<Rightarrow> env" where
  "serving_env resp = demo_env \<lparr>fetch := (\<lambda>u. Inr resp)\<rparr>"

section \<open>The fetch stage\<close>

lemma fetchResponse_events:
  "fetchResponse env email sz = (tr, r) \<Longrightarrow> ReadBlob \<notin> set tr \<and> SignatureCheck \<notin> set tr"
  by (auto simp: fetchResponse_def Let_def split: if_splits sum.splits)

lemma fetchResponse_first:
  "\<exists>rest. fst (fetchResponse env email sz) = Fetch (contactsInstance env email @ route env email sz) # rest"
  by (auto simp: fetchResponse_def Let_def split: if_splits sum.splits)

lemma getAvatar_trace_prefix:
  "\<exists>rest. fst (getAvatar env email sz) = fst (fetchResponse env email sz) @ rest"
  by (auto simp: getAvatar_def split: prod.splits option.splits sum.splits)

lemma fetches_append: "fetches (xs @ ys) = fetches xs @ fetches ys"
  by (induction xs rule: fetches.induct) auto

lemma getAvatar_fetches:
  "fetches (fst (getAvatar env email sz)) = fetches (fst (fetchResponse env email sz))"
  by (auto simp: getAvatar_def fetches_append split: prod.splits option.splits sum.splits)

lemma getAvatar_no_response:
  "snd (fetchResponse env email sz) = None \<Longrightarrow> snd (getAvatar env email sz) = Inr None"
  by (auto simp: getAvatar_def split: prod.splits)

lemma getAvatar_not_ok:
  "snd (fetchResponse env email sz) = Some r \<Longrightarrow> \<not> ok r \<Longrightarrow> snd (getAvatar env email sz) = Inr None"
  by (auto simp: getAvatar_def split: prod.splits)

text \<open>
  C1. A call makes at most two requests. When the first attempt succeeds it is the only one.
  When it fails, the fallback instance is the \<open>preferredInstance\<close> preference, or the default
  host when that is unset or empty; if the fallback equals the instance already tried, the call
  returns \<open>null\<close> after that single request; otherwise exactly one more request goes to the
  fallback, and a failure of it gives \<open>null\<close>.
\<close>

theorem getAvatar_at_most_two_fetches:
  "let first = contactsInstance env email @ route env email sz;
       second = fallbackInstance env @ route env email sz;
       tr = fst (getAvatar env email sz);
       res = snd (getAvatar env email sz)
   in length (fetches tr) \<le> 2 \<and>
      fallbackInstance env =
        (case preferredInstance (storage env) of
           None \<Rightarrow> DEFAULT_HOST env
         | Some s \<Rightarrow> if s = [] then DEFAULT_HOST env else s) \<and>
      (\<not> failed (attempt env first) \<longrightarrow> fetches tr = [first]) \<and>
      (failed (attempt env first) \<and> fallbackInstance env = contactsInstance env email \<longrightarrow>
         fetches tr = [first] \<and> res = Inr None) \<and>
      (failed (attempt env first) \<and> fallbackInstance env \<noteq> contactsInstance env email \<longrightarrow>
         fetches tr = [first, second] \<and> (failed (attempt env second) \<longrightarrow> res = Inr None))"
proof -
  let ?first = "contactsInstance env email @ route env email sz"
  let ?second = "fallbackInstance env @ route env email sz"
  let ?fr = "fetchResponse env email sz"
  have ok1: "\<not> failed (attempt env ?first) \<Longrightarrow> fst ?fr = [Fetch ?first]"
    by (simp add: fetchResponse_def Let_def)
  have same: "failed (attempt env ?first) \<Longrightarrow> fallbackInstance env = contactsInstance env email
      \<Longrightarrow> ?fr = ([Fetch ?first], None)"
    by (simp add: fetchResponse_def Let_def)
  have diff: "failed (attempt env ?first) \<Longrightarrow> fallbackInstance env \<noteq> contactsInstance env email
      \<Longrightarrow> fst ?fr = [Fetch ?first, Fetch ?second] \<and> snd ?fr = attempt env ?second"
    by (simp add: fetchResponse_def Let_def attempt_def split: sum.splits)
  have len: "length (fetches (fst ?fr)) \<le> 2"
    using ok1 same diff
    by (cases "failed (attempt env ?first)"; cases "fallbackInstance env = contactsInstance env email") auto
  have final: "failed (attempt env ?first) \<Longrightarrow> fallbackInstance env \<noteq> contactsInstance env email
      \<Longrightarrow> failed (attempt env ?second) \<Longrightarrow> snd (getAvatar env email sz) = Inr None"
    using diff getAvatar_no_response [of env email sz] getAvatar_not_ok [of env email sz]
    by (auto simp: failed_def split: option.splits)
  have fb: "fallbackInstance env =
        (case preferredInstance (storage env) of
           None \<Rightarrow> DEFAULT_HOST env
         | Some s \<Rightarrow> if s = [] then DEFAULT_HOST env else s)"
    by (simp add: fallbackInstance_def split: option.splits)
  show ?thesis
    unfolding Let_def getAvatar_fetches
    using ok1 same diff len final fb getAvatar_no_response [of env email sz]
    by auto
qed


theorem getAvatar_at_most_two_fetches_witness:
  "failed (attempt mirror_env (contactsInstance mirror_env ''a@b.example'' @
                               route mirror_env ''a@b.example'' 80)) \<and>
   fallbackInstance mirror_env \<noteq> contactsInstance mirror_env ''a@b.example'' \<and>
   fetches (fst (getAvatar mirror_env ''a@b.example'' 80)) =
     [''https://default.example/avatar/sha256-of-a@b.example?s=80&d=identicon'',
      ''https://mirror.example/avatar/sha256-of-a@b.example?s=80&d=identicon''] \<and>
   snd (getAvatar mirror_env ''a@b.example'' 80) = Inr None"
proof -
  have c: "contactsInstance mirror_env ''a@b.example'' = ''https://default.example''"
    by code_simp
  have f: "fallbackInstance mirror_env = ''https://mirror.example''"
    by code_simp
  have r: "route mirror_env ''a@b.example'' 80 = ''/avatar/sha256-of-a@b.example?s=80&d=identicon''"
    by code_simp
  have p: "preferredInstance (storage mirror_env) = Some ''https://mirror.example''"
    by (simp add: mirror_env_def)
  have a: "failed (attempt mirror_env u)" for u
    by (simp add: failed_def attempt_def mirror_env_def)
  show ?thesis
    using getAvatar_at_most_two_fetches [of mirror_env "''a@b.example''" 80] a
    by (simp add: Let_def c f r p)
qed


section \<open>The validation stage\<close>

lemma SUPPORTED_CONTENT_TYPES_keys:
  "SUPPORTED_CONTENT_TYPES ct \<noteq> None \<longleftrightarrow> ct = ''image/jpg'' \<or> ct = ''image/png''"
  by (simp add: SUPPORTED_CONTENT_TYPES_def)

lemma SUPPORTED_CONTENT_TYPES_jpg:
  "SUPPORTED_CONTENT_TYPES ''image/jpg'' =
     Some \<lparr>contentType = ''image/jpeg'', signature = [255, 216], tail = Some [255, 217]\<rparr>"
  by (simp add: SUPPORTED_CONTENT_TYPES_def)

lemma SUPPORTED_CONTENT_TYPES_png:
  "SUPPORTED_CONTENT_TYPES ''image/png'' =
     Some \<lparr>contentType = ''image/png'', signature = [137, 80, 78, 71, 13, 10, 26, 10],
           tail = None\<rparr>"
  by (simp add: SUPPORTED_CONTENT_TYPES_def)

lemma getAvatar_validate:
  assumes "fetchResponse env email sz = (tr, Some resp)" and "ok resp"
    and "content_type resp = Some ct" and "SUPPORTED_CONTENT_TYPES ct = Some m"
    and "blob resp = Inr bytes"
  shows "getAvatar env email sz =
           (tr @ [ReadBlob, SignatureCheck],
            if doSignaturesMatch bytes (signature m) (tail m)
            then Inr (Some (newFile env email m bytes)) else Inr None)"
proof -
  have "ct \<noteq> []"
    using assms(4) SUPPORTED_CONTENT_TYPES_keys [of ct] by auto
  then show ?thesis
    using assms by (simp add: getAvatar_def)
qed

lemma getAvatar_unknown_type:
  assumes "fetchResponse env email sz = (tr, Some resp)" and "ok resp"
    and "content_type resp = Some ct" and "SUPPORTED_CONTENT_TYPES ct = None"
  shows "getAvatar env email sz = (tr, Inr None)"
  using assms by (simp add: getAvatar_def)

lemma getAvatar_no_header:
  assumes "fetchResponse env email sz = (tr, Some resp)" and "content_type resp = None"
  shows "getAvatar env email sz = (tr, Inr None)"
  using assms by (simp add: getAvatar_def)

lemma serving_env_fetchResponse:
  "ok resp \<Longrightarrow> fetchResponse (serving_env resp) email sz =
     ([Fetch (contactsInstance (serving_env resp) email @ route (serving_env resp) email sz)],
      Some resp)"
  by (simp add: fetchResponse_def Let_def attempt_def failed_def serving_env_def)

lemma jpg_signature_matches:
  "doSignaturesMatch (255 # 216 # rest) [255, 216] (Some [255, 217]) \<longleftrightarrow>
     (\<exists>front. 255 # 216 # rest = front @ [255, 217])"
proof
  assume "doSignaturesMatch (255 # 216 # rest) [255, 216] (Some [255, 217])"
  then have "drop (length (255 # 216 # rest) - 2) (255 # 216 # rest) = [255, 217]"
    by (simp add: doSignaturesMatch_def)
  then have "255 # 216 # rest = take (length (255 # 216 # rest) - 2) (255 # 216 # rest) @ [255, 217]"
    by (metis append_take_drop_id)
  then show "\<exists>front. 255 # 216 # rest = front @ [255, 217]" by blast
next
  assume "\<exists>front. 255 # 216 # rest = front @ [255, 217]"
  then obtain front where f: "255 # 216 # rest = front @ [255, 217]" by blast
  have "drop (length (front @ [255, 217 :: byte]) - 2) (front @ [255, 217]) = [255, 217]"
    by simp
  then show "doSignaturesMatch (255 # 216 # rest) [255, 216] (Some [255, 217])"
    unfolding f [symmetric] by (simp add: doSignaturesMatch_def)
qed

text \<open>
  C3. \<open>image/png\<close> is a key of the table, and still a successful response that declares it and
  whose body does not begin with the eight bytes 137, 80, 78, 71, 13, 10, 26, 10 makes
  \<open>getAvatar\<close> resolve to \<open>null\<close>: the body is read and checked, and nothing is raised.
\<close>

theorem getAvatar_rejects_bad_png:
  "SUPPORTED_CONTENT_TYPES ''image/png'' \<noteq> None \<and>
   (fetchResponse env email sz = (tr, Some resp) \<and> ok resp \<and>
    content_type resp = Some ''image/png'' \<and> blob resp = Inr bytes \<and>
    take 8 bytes \<noteq> [137, 80, 78, 71, 13, 10, 26, 10]
    \<longrightarrow> getAvatar env email sz = (tr @ [ReadBlob, SignatureCheck], Inr None))"
proof (intro conjI impI)
  show "SUPPORTED_CONTENT_TYPES ''image/png'' \<noteq> None"
    by (simp add: SUPPORTED_CONTENT_TYPES_png)
next
  assume a: "fetchResponse env email sz = (tr, Some resp) \<and> ok resp \<and>
    content_type resp = Some ''image/png'' \<and> blob resp = Inr bytes \<and>
    take 8 bytes \<noteq> [137, 80, 78, 71, 13, 10, 26, 10]"
  have l: "length [137, 80, 78, 71, 13, 10, 26, 10 :: byte] = 8"
    by simp
  have "\<not> doSignaturesMatch bytes [137, 80, 78, 71, 13, 10, 26, 10] None"
    unfolding doSignaturesMatch_def l using a by blast
  then show "getAvatar env email sz = (tr @ [ReadBlob, SignatureCheck], Inr None)"
    using a getAvatar_validate [OF _ _ _ SUPPORTED_CONTENT_TYPES_png, of env email sz tr resp bytes]
    by simp
qed

theorem getAvatar_rejects_bad_png_witness:
  "getAvatar (serving_env \<lparr>ok = True, content_type = Some ''image/png'',
                           blob = Inr [60, 104, 116, 109, 108, 62]\<rparr>) ''a@b.example'' 80 =
     ([Fetch ''https://default.example/avatar/sha256-of-a@b.example?s=80&d=identicon'',
       ReadBlob, SignatureCheck], Inr None)"
proof -
  let ?resp = "\<lparr>ok = True, content_type = Some ''image/png'',
                 blob = Inr [60, 104, 116, 109, 108, 62 :: byte]\<rparr>"
  have u: "contactsInstance (serving_env ?resp) ''a@b.example'' @
           route (serving_env ?resp) ''a@b.example'' 80 =
           ''https://default.example/avatar/sha256-of-a@b.example?s=80&d=identicon''"
    by code_simp
  show ?thesis
    using getAvatar_rejects_bad_png [of "serving_env ?resp" "''a@b.example''" 80
        "[Fetch ''https://default.example/avatar/sha256-of-a@b.example?s=80&d=identicon'']"
        ?resp "[60, 104, 116, 109, 108, 62]"]
      serving_env_fetchResponse [of ?resp "''a@b.example''" 80]
    by (simp add: u)
qed

text \<open>
  C4. A successful response that declares \<open>image/jpg\<close> and whose body starts with 255, 216 and
  ends with 255, 217 is accepted: the file carries the body, the type \<open>image/jpeg\<close> and the name
  made of the address hash, a dot and \<open>jpeg\<close>.
\<close>

theorem getAvatar_accepts_jpg:
  assumes "fetchResponse env email sz = (tr, Some resp)" and "ok resp"
    and "content_type resp = Some ''image/jpg''" and "blob resp = Inr bytes"
    and "bytes = 255 # 216 # rest" and "bytes = front @ [255, 217]"
  shows "snd (getAvatar env email sz) =
           Inr (Some \<lparr>file_bits = bytes, file_name = emailHash env email @ ''.jpeg'',
                      file_type = ''image/jpeg''\<rparr>)"
proof -
  have "255 # 216 # rest = front @ [255, 217]"
    using assms(5,6) by simp
  then have "doSignaturesMatch (255 # 216 # rest) [255, 216] (Some [255, 217])"
    using jpg_signature_matches [of rest] by blast
  then have m: "doSignaturesMatch bytes [255, 216] (Some [255, 217])"
    unfolding assms(5) .
  show ?thesis
    using getAvatar_validate [OF assms(1-3) SUPPORTED_CONTENT_TYPES_jpg assms(4)] m
    by (simp add: newFile_def at_def)
qed


theorem getAvatar_accepts_jpg_witness:
  "snd (getAvatar (serving_env \<lparr>ok = True, content_type = Some ''image/jpg'',
                                blob = Inr [255, 216, 255, 224, 0, 16, 255, 217]\<rparr>)
          ''a@b.example'' 80) =
     Inr (Some \<lparr>file_bits = [255, 216, 255, 224, 0, 16, 255, 217],
                file_name = ''sha256-of-a@b.example.jpeg'', file_type = ''image/jpeg''\<rparr>)"
proof -
  let ?resp = "\<lparr>ok = True, content_type = Some ''image/jpg'',
                 blob = Inr [255, 216, 255, 224, 0, 16, 255, 217 :: byte]\<rparr>"
  have h: "emailHash (serving_env ?resp) ''a@b.example'' = ''sha256-of-a@b.example''"
    by code_simp
  have fr: "fetchResponse (serving_env ?resp) ''a@b.example'' 80 =
     ([Fetch (contactsInstance (serving_env ?resp) ''a@b.example'' @
              route (serving_env ?resp) ''a@b.example'' 80)], Some ?resp)"
    by (rule serving_env_fetchResponse) simp
  have "snd (getAvatar (serving_env ?resp) ''a@b.example'' 80) =
     Inr (Some \<lparr>file_bits = [255, 216, 255, 224, 0, 16, 255, 217],
                file_name = emailHash (serving_env ?resp) ''a@b.example'' @ ''.jpeg'',
                file_type = ''image/jpeg''\<rparr>)"
    by (rule getAvatar_accepts_jpg [OF fr, where rest = "[255, 224, 0, 16, 255, 217]"
          and front = "[255, 216, 255, 224, 0, 16]"]) simp_all
  then show ?thesis
    by (simp add: h)
qed


text \<open>
  C6. When a successful response has no content-type header, or declares a type that is not
  in the table (\<open>text/html\<close> is such a type), \<open>getAvatar\<close> resolves to \<open>null\<close> having made only
  the requests of the fetch stage: the body is not read and no signature is checked.
\<close>

theorem getAvatar_unsupported_type_unread:
  assumes "fetchResponse env email sz = (tr, Some resp)" and "ok resp"
    and "content_type resp = None \<or>
         (\<exists>ct. content_type resp = Some ct \<and> SUPPORTED_CONTENT_TYPES ct = None)"
  shows "getAvatar env email sz = (tr, Inr None) \<and>
         ReadBlob \<notin> set (fst (getAvatar env email sz)) \<and>
         SignatureCheck \<notin> set (fst (getAvatar env email sz)) \<and>
         SUPPORTED_CONTENT_TYPES ''text/html'' = None"
proof -
  have g: "getAvatar env email sz = (tr, Inr None)"
    using assms getAvatar_unknown_type [OF assms(1,2)] getAvatar_no_header [OF assms(1)]
    by blast
  have h: "SUPPORTED_CONTENT_TYPES ''text/html'' = None"
    using SUPPORTED_CONTENT_TYPES_keys [of "''text/html''"] by simp
  show ?thesis
    using g h fetchResponse_events [OF assms(1)] by simp
qed

theorem getAvatar_unsupported_type_unread_witness:
  "getAvatar (serving_env \<lparr>ok = True, content_type = Some ''text/html'',
                           blob = Inl TimeoutError\<rparr>) ''a@b.example'' 80 =
     ([Fetch ''https://default.example/avatar/sha256-of-a@b.example?s=80&d=identicon''],
      Inr None)"
proof -
  let ?resp = "\<lparr>ok = True, content_type = Some ''text/html'',
                 blob = Inl TimeoutError :: js_error + byte list\<rparr>"
  have u: "contactsInstance (serving_env ?resp) ''a@b.example'' @
           route (serving_env ?resp) ''a@b.example'' 80 =
           ''https://default.example/avatar/sha256-of-a@b.example?s=80&d=identicon''"
    by code_simp
  have fr: "fetchResponse (serving_env ?resp) ''a@b.example'' 80 =
     ([Fetch ''https://default.example/avatar/sha256-of-a@b.example?s=80&d=identicon''],
      Some ?resp)"
    using serving_env_fetchResponse [of ?resp "''a@b.example''" 80] by (simp add: u)
  have k: "SUPPORTED_CONTENT_TYPES ''text/html'' = None"
    by (simp add: SUPPORTED_CONTENT_TYPES_def)
  show ?thesis
    using getAvatar_unsupported_type_unread [OF fr] k by simp
qed

text \<open>
  C10. The table is looked up with the declared header as it stands, and its keys are
  \<open>image/jpg\<close> and \<open>image/png\<close> only. A successful response declaring any other string,
  \<open>image/jpeg\<close> or \<open>image/png; charset=utf-8\<close> among them, makes \<open>getAvatar\<close> resolve to \<open>null\<close>
  whatever the body is.
\<close>

theorem SUPPORTED_CONTENT_TYPES_exact_match:
  "(SUPPORTED_CONTENT_TYPES ct \<noteq> None \<longleftrightarrow> ct = ''image/jpg'' \<or> ct = ''image/png'') \<and>
   SUPPORTED_CONTENT_TYPES ''image/jpeg'' = None \<and>
   SUPPORTED_CONTENT_TYPES ''image/png; charset=utf-8'' = None \<and>
   (fetchResponse env email sz = (tr, Some resp) \<and> ok resp \<and> content_type resp = Some ct \<and>
    ct \<noteq> ''image/jpg'' \<and> ct \<noteq> ''image/png''
    \<longrightarrow> getAvatar env email sz = (tr, Inr None))"
proof (intro conjI impI)
  show "SUPPORTED_CONTENT_TYPES ct \<noteq> None \<longleftrightarrow> ct = ''image/jpg'' \<or> ct = ''image/png''"
    by (rule SUPPORTED_CONTENT_TYPES_keys)
  show "SUPPORTED_CONTENT_TYPES ''image/jpeg'' = None"
    by (simp add: SUPPORTED_CONTENT_TYPES_def)
  show "SUPPORTED_CONTENT_TYPES ''image/png; charset=utf-8'' = None"
    by (simp add: SUPPORTED_CONTENT_TYPES_def)
next
  assume a: "fetchResponse env email sz = (tr, Some resp) \<and> ok resp \<and>
    content_type resp = Some ct \<and> ct \<noteq> ''image/jpg'' \<and> ct \<noteq> ''image/png''"
  then have "SUPPORTED_CONTENT_TYPES ct = None"
    using SUPPORTED_CONTENT_TYPES_keys [of ct] by blast
  then show "getAvatar env email sz = (tr, Inr None)"
    using a getAvatar_unknown_type by blast
qed

theorem SUPPORTED_CONTENT_TYPES_exact_match_witness:
  "getAvatar (serving_env \<lparr>ok = True, content_type = Some ''image/jpeg'',
                           blob = Inr [255, 216, 255, 224, 0, 16, 255, 217]\<rparr>)
     ''a@b.example'' 80 =
     ([Fetch ''https://default.example/avatar/sha256-of-a@b.example?s=80&d=identicon''],
      Inr None)"
proof -
  let ?resp = "\<lparr>ok = True, content_type = Some ''image/jpeg'',
                 blob = Inr [255, 216, 255, 224, 0, 16, 255, 217 :: byte]\<rparr>"
  have u: "contactsInstance (serving_env ?resp) ''a@b.example'' @
           route (serving_env ?resp) ''a@b.example'' 80 =
           ''https://default.example/avatar/sha256-of-a@b.example?s=80&d=identicon''"
    by code_simp
  have fr: "fetchResponse (serving_env ?resp) ''a@b.example'' 80 =
     ([Fetch ''https://default.example/avatar/sha256-of-a@b.example?s=80&d=identicon''],
      Some ?resp)"
    using serving_env_fetchResponse [of ?resp "''a@b.example''" 80] by (simp add: u)
  show ?thesis
    using SUPPORTED_CONTENT_TYPES_exact_match [of "''image/jpeg''" "serving_env ?resp"
        "''a@b.example''" 80 _ ?resp] fr
    by simp
qed

section \<open>Transport failures\<close>

text \<open>
  C8. When the request to the resolved instance and the request to the fallback instance are
  both rejected, \<open>getAvatar\<close> resolves to \<open>null\<close>; no rejection escapes.
\<close>

theorem getAvatar_both_attempts_rejected:
  assumes "fetch env (contactsInstance env email @ route env email sz) = Inl e1"
    and "fetch env (fallbackInstance env @ route env email sz) = Inl e2"
  shows "snd (getAvatar env email sz) = Inr None"
proof -
  have "snd (fetchResponse env email sz) = None"
    using assms by (simp add: fetchResponse_def Let_def attempt_def failed_def)
  then show ?thesis
    by (rule getAvatar_no_response)
qed

theorem getAvatar_both_attempts_rejected_witness:
  "fetches (fst (getAvatar offline_env ''a@b.example'' 80)) =
     [''https://default.example/avatar/sha256-of-a@b.example?s=80&d=identicon'',
      ''https://mirror.example/avatar/sha256-of-a@b.example?s=80&d=identicon''] \<and>
   snd (getAvatar offline_env ''a@b.example'' 80) = Inr None"
proof -
  have f: "fetch offline_env u = Inl NetworkError" for u
    by (simp add: offline_env_def demo_env_def)
  have t: "fetches (fst (getAvatar offline_env ''a@b.example'' 80)) =
     [''https://default.example/avatar/sha256-of-a@b.example?s=80&d=identicon'',
      ''https://mirror.example/avatar/sha256-of-a@b.example?s=80&d=identicon'']"
    by code_simp
  show ?thesis
    using getAvatar_both_attempts_rejected [OF f f, of "''a@b.example''" 80] t by simp
qed


section \<open>Instance resolution\<close>

lemma getAvatar_rejection_source:
  "snd (getAvatar env email sz) = Inl err \<Longrightarrow>
     \<exists>tr resp. fetchResponse env email sz = (tr, Some resp) \<and> ok resp \<and> blob resp = Inl err"
  by (cases "fetchResponse env email sz")
     (auto simp: getAvatar_def split: option.splits if_splits sum.splits)

text \<open>
  C2. With no resolver configured (the preference unset or empty), and with a resolver whose
  lookup gives a negative answer or fails, the instance is the default host. Resolution raises
  nothing: a rejection that escapes \<open>getAvatar\<close> can only be that of reading the body of a
  successful response.
\<close>

theorem contactsInstance_degrades_to_default:
  "(dohServer (storage env) = None \<or> dohServer (storage env) = Some [] \<longrightarrow>
      contactsInstance env email = DEFAULT_HOST env) \<and>
   (dohServer (storage env) = Some server \<and>
    (lookup env (domain email) server = NoRecord \<or>
     lookup env (domain email) server = LookupError) \<longrightarrow>
      contactsInstance env email = DEFAULT_HOST env) \<and>
   (snd (getAvatar env email sz) = Inl err \<longrightarrow>
      (\<exists>tr resp. fetchResponse env email sz = (tr, Some resp) \<and> ok resp \<and>
                 blob resp = Inl err))"
proof (intro conjI impI)
  assume "dohServer (storage env) = None \<or> dohServer (storage env) = Some []"
  then show "contactsInstance env email = DEFAULT_HOST env"
    by (auto simp: contactsInstance_def dnsData_def)
next
  assume "dohServer (storage env) = Some server \<and>
    (lookup env (domain email) server = NoRecord \<or>
     lookup env (domain email) server = LookupError)"
  then show "contactsInstance env email = DEFAULT_HOST env"
    by (auto simp: contactsInstance_def dnsData_def queryAvatarService_def)
next
  assume "snd (getAvatar env email sz) = Inl err"
  then show "\<exists>tr resp. fetchResponse env email sz = (tr, Some resp) \<and> ok resp \<and>
                 blob resp = Inl err"
    by (rule getAvatar_rejection_source)
qed

theorem contactsInstance_degrades_to_default_witness:
  "dohServer (storage doh_env) = Some ''https://doh.example/dns-query'' \<and>
   lookup doh_env (domain ''a@b.example'') ''https://doh.example/dns-query'' = LookupError \<and>
   contactsInstance doh_env ''a@b.example'' = ''https://default.example'' \<and>
   snd (getAvatar doh_env ''a@b.example'' 80) = Inr None"
proof -
  have d: "dohServer (storage doh_env) = Some ''https://doh.example/dns-query''"
    by (simp add: doh_env_def)
  have l: "lookup doh_env dom srv = LookupError" for dom srv
    by (simp add: doh_env_def)
  have h: "DEFAULT_HOST doh_env = ''https://default.example''"
    by (simp add: doh_env_def demo_env_def)
  have g: "snd (getAvatar doh_env ''a@b.example'' 80) = Inr None"
    by code_simp
  show ?thesis
    using contactsInstance_degrades_to_default
      [where env = doh_env and server = "''https://doh.example/dns-query''"
         and email = "''a@b.example''"] d l h g
    by simp
qed

section \<open>The request path\<close>

lemma normalized_Alice: "normalized ''Alice@Example.com'' = ''alice@example.com''"
  by code_simp

lemma numberToString_80: "numberToString 80 = ''80''"
  by code_simp

text \<open>
  C5. The placeholder preference has three cases: unset, the route ends with \<open>&d=\<close> and the
  system default; the empty string, the route has no \<open>d\<close> directive; any other value, the route
  ends with \<open>&d=\<close> and that value as it stands. For \<open>Alice@Example.com\<close>, size 80, no resolver,
  the preference unset and the system default \<open>identicon\<close>, the route is
  \<open>/avatar/<hash of alice@example.com>?s=80&d=identicon\<close> and the instance is the default host.
\<close>

theorem route_placeholder_three_valued:
  "let base = ''/avatar/'' @ sha256sum env (normalized email) @ ''?s='' @ numberToString sz
   in (defaultAvatar (storage env) = None \<longrightarrow>
         route env email sz = base @ ''&d='' @ DEFAULT_AVATAR env) \<and>
      (defaultAvatar (storage env) = Some [] \<longrightarrow> route env email sz = base) \<and>
      (defaultAvatar (storage env) = Some v \<and> v \<noteq> [] \<longrightarrow>
         route env email sz = base @ ''&d='' @ v) \<and>
      (defaultAvatar (storage env) = None \<and> DEFAULT_AVATAR env = ''identicon'' \<and>
       dohServer (storage env) = None \<longrightarrow>
         route env ''Alice@Example.com'' 80 =
           ''/avatar/'' @ sha256sum env ''alice@example.com'' @ ''?s=80&d=identicon'' \<and>
         contactsInstance env ''Alice@Example.com'' = DEFAULT_HOST env)"
  by (auto simp: Let_def route_def emailHash_def normalized_Alice numberToString_80
        contactsInstance_def dnsData_def)

theorem route_placeholder_three_valued_witness:
  "route demo_env ''Alice@Example.com'' 80 =
     ''/avatar/sha256-of-alice@example.com?s=80&d=identicon'' \<and>
   contactsInstance demo_env ''Alice@Example.com'' = ''https://default.example''"
proof -
  have s: "storage demo_env = \<lparr>dohServer = None, defaultAvatar = None, preferredInstance = None\<rparr>"
    and a: "DEFAULT_AVATAR demo_env = ''identicon''"
    and h: "DEFAULT_HOST demo_env = ''https://default.example''"
    and k: "sha256sum demo_env x = ''sha256-of-'' @ x" for x
    by (simp_all add: demo_env_def demo_hash_def)
  show ?thesis
    using route_placeholder_three_valued
      [where env = demo_env and email = "''Alice@Example.com''" and sz = 80]
    by (simp add: Let_def s a h k normalized_Alice numberToString_80)
qed

section \<open>Normalization of the address\<close>

lemma isWhiteSpace_lowerChar: "isWhiteSpace (lowerChar c) = isWhiteSpace c"
proof -
  have "of_char (char_of (of_char c + 32 :: nat)) = ((of_char c + 32) mod 256 :: nat)"
    by simp
  then show ?thesis
    unfolding isWhiteSpace_def lowerChar_def Let_def
    by (auto simp del: of_char_of)
qed

lemma trim_toLowerCase: "trim (toLowerCase s) = toLowerCase (trim s)"
proof -
  have c: "isWhiteSpace \<circ> lowerChar = isWhiteSpace"
    by (rule ext) (simp add: isWhiteSpace_lowerChar)
  show ?thesis
    by (simp add: trim_def toLowerCase_def dropWhile_map rev_map c)
qed

lemma trim_surrounding:
  assumes "list_all isWhiteSpace l" and "list_all isWhiteSpace r"
  shows "trim (l @ e @ r) = trim e"
proof -
  have l: "dropWhile isWhiteSpace (l @ e @ r) = dropWhile isWhiteSpace (e @ r)"
    using assms(1) by (simp add: list_all_iff)
  have r: "dropWhile isWhiteSpace (rev r @ xs) = dropWhile isWhiteSpace xs" for xs
    by (rule dropWhile_append2) (use assms(2) in \<open>simp add: list_all_iff\<close>)
  show ?thesis
  proof (cases "list_all isWhiteSpace e")
    case True
    then have a: "dropWhile isWhiteSpace e = []"
      by (simp add: list_all_iff)
    have b: "dropWhile isWhiteSpace (e @ r) = []"
      unfolding dropWhile_eq_Nil_conv using True assms(2) by (auto simp: list_all_iff)
    show ?thesis
      unfolding trim_def l a b ..
  next
    case False
    then have "dropWhile isWhiteSpace (e @ r) = dropWhile isWhiteSpace e @ r"
      by (auto simp: list_all_iff)
    then show ?thesis
      by (simp add: trim_def l r)
  qed
qed

lemma normalized_variant:
  assumes "list_all isWhiteSpace l" and "list_all isWhiteSpace r"
    and "toLowerCase e1 = toLowerCase e2"
  shows "normalized (l @ e1 @ r) = normalized e2"
proof -
  have "normalized (l @ e1 @ r) = toLowerCase (trim e1)"
    by (simp add: normalized_def trim_surrounding [OF assms(1,2)])
  also have "\<dots> = trim (toLowerCase e2)"
    by (simp add: trim_toLowerCase [symmetric] assms(3))
  finally show ?thesis
    by (simp add: normalized_def trim_toLowerCase)
qed

lemma getAvatar_normalized_cong:
  assumes "normalized e1 = normalized e2"
  shows "getAvatar env e1 sz = getAvatar env e2 sz"
proof -
  have h: "emailHash env e1 = emailHash env e2"
    using assms by (simp add: emailHash_def)
  have d: "domain e1 = domain e2"
    using assms by (simp add: domain_def)
  have r: "route env e1 sz = route env e2 sz"
    using h by (simp add: route_def)
  have "dnsData env e1 = dnsData env e2"
    by (simp add: dnsData_def d split: option.splits)
  then have c: "contactsInstance env e1 = contactsInstance env e2"
    by (simp add: contactsInstance_def)
  have f: "fetchResponse env e1 sz = fetchResponse env e2 sz"
    unfolding fetchResponse_def r c ..
  have n: "newFile env e1 = newFile env e2"
    using h by (intro ext) (simp add: newFile_def)
  show ?thesis
    unfolding getAvatar_def f n ..
qed

text \<open>
  C7. Two addresses with the same normalized form have the same hash and the same route, and
  \<open>getAvatar\<close> does the same on both. Surrounding an address with white space and changing the
  case of its letters does not change the normalized form.
\<close>

theorem emailHash_invariant:
  "(normalized e1 = normalized e2 \<longrightarrow>
      emailHash env e1 = emailHash env e2 \<and> route env e1 sz = route env e2 sz \<and>
      getAvatar env e1 sz = getAvatar env e2 sz) \<and>
   (list_all isWhiteSpace l \<and> list_all isWhiteSpace r \<and> toLowerCase e1 = toLowerCase e2 \<longrightarrow>
      normalized (l @ e1 @ r) = normalized e2)"
proof (intro conjI impI)
  assume n: "normalized e1 = normalized e2"
  then show "emailHash env e1 = emailHash env e2"
    by (simp add: emailHash_def)
  then show "route env e1 sz = route env e2 sz"
    by (simp add: route_def)
  show "getAvatar env e1 sz = getAvatar env e2 sz"
    using n by (rule getAvatar_normalized_cong)
next
  assume "list_all isWhiteSpace l \<and> list_all isWhiteSpace r \<and> toLowerCase e1 = toLowerCase e2"
  then show "normalized (l @ e1 @ r) = normalized e2"
    using normalized_variant by blast
qed

theorem emailHash_invariant_witness:
  "normalized ''  Alice@Example.COM '' = normalized ''alice@example.com'' \<and>
   emailHash demo_env ''  Alice@Example.COM '' = emailHash demo_env ''alice@example.com'' \<and>
   route demo_env ''  Alice@Example.COM '' 80 =
     ''/avatar/sha256-of-alice@example.com?s=80&d=identicon''"
proof -
  have w: "list_all isWhiteSpace ''  ''" "list_all isWhiteSpace '' ''"
    by code_simp+
  have c: "toLowerCase ''Alice@Example.COM'' = toLowerCase ''alice@example.com''"
    by code_simp
  have r: "route demo_env ''alice@example.com'' 80 =
     ''/avatar/sha256-of-alice@example.com?s=80&d=identicon''"
    by code_simp
  have n: "normalized ''  Alice@Example.COM '' = normalized ''alice@example.com''"
    using emailHash_invariant [where l = "''  ''" and r = "'' ''"
        and ?e1.0 = "''Alice@Example.COM''" and ?e2.0 = "''alice@example.com''"] w c
    by simp
  show ?thesis
    using emailHash_invariant [where ?e1.0 = "''  Alice@Example.COM ''"
        and ?e2.0 = "''alice@example.com''" and env = demo_env and sz = 80] n r
    by simp
qed


section \<open>The domain of the address\<close>

lemma split_not_Nil: "split sep s \<noteq> []"
  by (induction s) (auto split: list.splits)

lemma split_no_sep: "sep \<notin> set s \<Longrightarrow> split sep s = [s]"
  by (induction s) auto

lemma split_hd: "hd (split sep s) = takeWhile (\<lambda>c. c \<noteq> sep) s"
  by (induction s) (auto simp: split_not_Nil split: list.splits)

lemma split_first: "sep \<notin> set l \<Longrightarrow> split sep (l @ sep # r) = l # split sep r"
  by (induction l) auto

lemma at_second: "xs \<noteq> [] \<Longrightarrow> at (x # xs) 1 = Some (hd xs)"
  by (cases xs) (auto simp: at_def)

lemma domain_no_at: "CHR ''@'' \<notin> set (normalized email) \<Longrightarrow> domain email = None"
  by (simp add: domain_def split_no_sep at_def)

lemma domain_first_at:
  assumes "normalized email = l @ CHR ''@'' # r" and "CHR ''@'' \<notin> set l"
  shows "domain email = Some (takeWhile (\<lambda>c. c \<noteq> CHR ''@'') r)"
  unfolding domain_def assms(1) split_first [OF assms(2)]
  by (simp only: at_second [OF split_not_Nil] split_hd)

lemma getAvatar_first_fetch:
  "\<exists>rest. fst (getAvatar env email sz) =
     Fetch (contactsInstance env email @ route env email sz) # rest"
proof -
  obtain r1 where "fst (fetchResponse env email sz) =
      Fetch (contactsInstance env email @ route env email sz) # r1"
    using fetchResponse_first by blast
  moreover obtain r2 where "fst (getAvatar env email sz) = fst (fetchResponse env email sz) @ r2"
    using getAvatar_trace_prefix by blast
  ultimately show ?thesis by simp
qed

lemma lowerChar_idem: "lowerChar (lowerChar c) = lowerChar c"
proof -
  have "of_char (char_of (of_char c + 32 :: nat)) = ((of_char c + 32) mod 256 :: nat)"
    by simp
  then show ?thesis
    unfolding lowerChar_def Let_def
    by (auto simp del: of_char_of)
qed

lemma trim_idem: "trim (trim s) = trim s"
proof -
  let ?W = isWhiteSpace
  define zs where "zs = dropWhile ?W (rev (dropWhile ?W s))"
  have "dropWhile ?W (rev zs) = rev zs"
  proof (cases "zs = []")
    case True
    then show ?thesis by simp
  next
    case False
    have ne: "dropWhile ?W s \<noteq> []"
    proof
      assume a: "dropWhile ?W s = []"
      have "zs = []" unfolding zs_def a by simp
      with False show False ..
    qed
    have "last zs = last (rev (dropWhile ?W s))"
      using False unfolding zs_def by (metis dropWhile_last dropWhile_eq_Nil_conv)
    also have "\<dots> = hd (dropWhile ?W s)"
      using ne by (simp add: last_rev)
    finally have "\<not> ?W (last zs)"
      using ne hd_dropWhile by metis
    then have "\<not> ?W (hd (rev zs))"
      using False by (simp add: hd_rev)
    then show ?thesis
      by (simp add: dropWhile_eq_self_iff)
  qed
  then have "trim (rev zs) = rev zs"
    by (simp add: trim_def zs_def)
  then show ?thesis
    by (simp add: trim_def zs_def)
qed

lemma normalized_fixed:
  "trim (normalized email) = normalized email \<and> toLowerCase (normalized email) = normalized email"
proof
  show "trim (normalized email) = normalized email"
    by (simp add: normalized_def trim_toLowerCase trim_idem)
  show "toLowerCase (normalized email) = normalized email"
    by (simp add: normalized_def toLowerCase_def lowerChar_idem)
qed


lemma trim_decompose:
  "\<exists>l r. s = l @ trim s @ r \<and> list_all isWhiteSpace l \<and> list_all isWhiteSpace r"
proof -
  let ?W = isWhiteSpace
  define ys where "ys = dropWhile ?W s"
  have s: "s = takeWhile ?W s @ ys"
    by (simp add: ys_def)
  have "rev (dropWhile ?W (rev ys)) @ rev (takeWhile ?W (rev ys)) = rev (rev ys)"
    by (simp only: rev_append [symmetric] takeWhile_dropWhile_id)
  then have ys: "ys = trim s @ rev (takeWhile ?W (rev ys))"
    by (simp add: trim_def ys_def)
  have l: "list_all ?W (takeWhile ?W s)"
    by (auto simp: list_all_iff dest: set_takeWhileD)
  have r: "list_all ?W (rev (takeWhile ?W (rev ys)))"
    by (auto simp: list_all_iff dest: set_takeWhileD)
  have "s = takeWhile ?W s @ trim s @ rev (takeWhile ?W (rev ys))"
    using s ys by simp
  then show ?thesis
    using l r by blast
qed

lemma trim_ends:
  assumes "trim s \<noteq> []"
  shows "\<not> isWhiteSpace (hd (trim s)) \<and> \<not> isWhiteSpace (last (trim s))"
proof -
  let ?W = isWhiteSpace
  define zs where "zs = dropWhile ?W (rev (dropWhile ?W s))"
  have t: "trim s = rev zs"
    by (simp add: trim_def zs_def)
  have nz: "zs \<noteq> []"
    using assms t by simp
  have ne: "dropWhile ?W s \<noteq> []"
  proof
    assume a: "dropWhile ?W s = []"
    have "zs = []" unfolding zs_def a by simp
    with nz show False ..
  qed
  have "last zs = last (rev (dropWhile ?W s))"
    using nz unfolding zs_def by (metis dropWhile_last dropWhile_eq_Nil_conv)
  also have "\<dots> = hd (dropWhile ?W s)"
    using ne by (simp add: last_rev)
  finally have "\<not> ?W (last zs)"
    using ne hd_dropWhile by metis
  then have h: "\<not> ?W (hd (trim s))"
    using nz by (simp add: t hd_rev)
  have "\<not> ?W (hd zs)"
    using nz unfolding zs_def by (rule hd_dropWhile)
  then have "\<not> ?W (last (trim s))"
    using nz by (simp add: t last_rev)
  with h show ?thesis ..
qed

lemma of_char_lowerChar:
  "(of_char (lowerChar c) :: nat) =
     (if (65 \<le> (of_char c :: nat) \<and> (of_char c :: nat) \<le> 90) \<or>
         (192 \<le> (of_char c :: nat) \<and> (of_char c :: nat) \<le> 214) \<or>
         (216 \<le> (of_char c :: nat) \<and> (of_char c :: nat) \<le> 222)
      then of_char c + 32 else of_char c)"
proof -
  have "of_char (char_of (of_char c + 32 :: nat)) = ((of_char c + 32) mod 256 :: nat)"
    by simp
  then show ?thesis
    unfolding lowerChar_def Let_def
    by (auto simp del: of_char_of)
qed

lemma getAvatar_rejection_iff:
  "snd (getAvatar env email sz) = Inl err \<longleftrightarrow>
     (\<exists>tr resp ct m. fetchResponse env email sz = (tr, Some resp) \<and> ok resp \<and>
        content_type resp = Some ct \<and> SUPPORTED_CONTENT_TYPES ct = Some m \<and>
        blob resp = Inl err)"
proof
  assume "snd (getAvatar env email sz) = Inl err"
  then show "\<exists>tr resp ct m. fetchResponse env email sz = (tr, Some resp) \<and> ok resp \<and>
        content_type resp = Some ct \<and> SUPPORTED_CONTENT_TYPES ct = Some m \<and>
        blob resp = Inl err"
    by (cases "fetchResponse env email sz")
       (auto simp: getAvatar_def split: option.splits if_splits sum.splits)
next
  assume "\<exists>tr resp ct m. fetchResponse env email sz = (tr, Some resp) \<and> ok resp \<and>
        content_type resp = Some ct \<and> SUPPORTED_CONTENT_TYPES ct = Some m \<and>
        blob resp = Inl err"
  then obtain tr resp ct m where a: "fetchResponse env email sz = (tr, Some resp)" "ok resp"
      "content_type resp = Some ct" "SUPPORTED_CONTENT_TYPES ct = Some m" "blob resp = Inl err"
    by blast
  have "ct \<noteq> []"
    using a(4) SUPPORTED_CONTENT_TYPES_keys [of ct] by auto
  then show "snd (getAvatar env email sz) = Inl err"
    using a by (simp add: getAvatar_def)
qed

text \<open>
  C9, as the spec has it: the domain is everything after the first \<open>@\<close>, and an address without
  \<open>@\<close> ends in no avatar. Neither holds. \<open>split('@')[1]\<close> is the second segment only, so the
  domain of \<open>bob@b.example@c.example\<close> is \<open>b.example\<close>; and \<open>getAvatar\<close> never tests the domain, so
  for \<open>alice\<close> it requests the hash of \<open>alice\<close> and returns the image the instance serves.
\<close>

theorem domain_after_first_at_counterexample:
  "domain ''bob@b.example@c.example'' = Some ''b.example'' \<and>
   domain ''bob@b.example@c.example'' \<noteq> Some ''b.example@c.example'' \<and>
   CHR ''@'' \<notin> set ''alice'' \<and>
   domain ''alice'' = None \<and>
   snd (getAvatar (serving_env \<lparr>ok = True, content_type = Some ''image/png'',
                                blob = Inr [137, 80, 78, 71, 13, 10, 26, 10, 0]\<rparr>)
          ''alice'' 80) =
     Inr (Some \<lparr>file_bits = [137, 80, 78, 71, 13, 10, 26, 10, 0],
                file_name = ''sha256-of-alice.png'', file_type = ''image/png''\<rparr>)"
proof (intro conjI)
  show d: "domain ''bob@b.example@c.example'' = Some ''b.example''"
    by code_simp
  show "domain ''bob@b.example@c.example'' \<noteq> Some ''b.example@c.example''"
    unfolding d by simp
  show "CHR ''@'' \<notin> set ''alice''"
    by simp
  show "domain ''alice'' = None"
    by code_simp
  show "snd (getAvatar (serving_env \<lparr>ok = True, content_type = Some ''image/png'',
                                blob = Inr [137, 80, 78, 71, 13, 10, 26, 10, 0]\<rparr>)
          ''alice'' 80) =
     Inr (Some \<lparr>file_bits = [137, 80, 78, 71, 13, 10, 26, 10, 0],
                file_name = ''sha256-of-alice.png'', file_type = ''image/png''\<rparr>)"
    by code_simp
qed

text \<open>
  C9, amended. The address is white space, the trimmed text, white space, where the trimmed
  text neither starts nor ends with white space; the normalized address is the trimmed text
  with every upper-case code unit replaced by the one 32 above it, and is itself trimmed and in
  lower case. The domain is the second segment of the normalized address split at every \<open>@\<close>:
  the text after the first \<open>@\<close> up to the next \<open>@\<close> or the end. When there is no \<open>@\<close> the domain is
  \<open>undefined\<close>, and the call goes on as for any address: the first request is made all the same,
  and the call ends in a rejection exactly when reading the body of a successful response of a
  supported type rejects; otherwise it resolves, to a file or to \<open>null\<close>.
\<close>

theorem domain_second_segment:
  "(\<exists>pre post. email = pre @ trim email @ post \<and>
      list_all isWhiteSpace pre \<and> list_all isWhiteSpace post) \<and>
   (trim email \<noteq> [] \<longrightarrow>
      \<not> isWhiteSpace (hd (trim email)) \<and> \<not> isWhiteSpace (last (trim email))) \<and>
   normalized email = map lowerChar (trim email) \<and>
   (of_char (lowerChar c) :: nat) =
     (if (65 \<le> (of_char c :: nat) \<and> (of_char c :: nat) \<le> 90) \<or>
         (192 \<le> (of_char c :: nat) \<and> (of_char c :: nat) \<le> 214) \<or>
         (216 \<le> (of_char c :: nat) \<and> (of_char c :: nat) \<le> 222)
      then of_char c + 32 else of_char c) \<and>
   trim (normalized email) = normalized email \<and>
   toLowerCase (normalized email) = normalized email \<and>
   (normalized email = l @ CHR ''@'' # r \<and> CHR ''@'' \<notin> set l \<longrightarrow>
      domain email = Some (takeWhile (\<lambda>c. c \<noteq> CHR ''@'') r)) \<and>
   (CHR ''@'' \<notin> set (normalized email) \<longrightarrow>
      domain email = None \<and>
      (\<exists>rest. fst (getAvatar env email sz) =
                Fetch (contactsInstance env email @ route env email sz) # rest) \<and>
      (snd (getAvatar env email sz) = Inl err \<longleftrightarrow>
         (\<exists>tr resp ct m. fetchResponse env email sz = (tr, Some resp) \<and> ok resp \<and>
            content_type resp = Some ct \<and> SUPPORTED_CONTENT_TYPES ct = Some m \<and>
            blob resp = Inl err)))"
proof (intro conjI impI)
  show "\<exists>pre post. email = pre @ trim email @ post \<and>
      list_all isWhiteSpace pre \<and> list_all isWhiteSpace post"
    by (rule trim_decompose)
  show "normalized email = map lowerChar (trim email)"
    by (simp add: normalized_def toLowerCase_def)
  show "(of_char (lowerChar c) :: nat) =
     (if (65 \<le> (of_char c :: nat) \<and> (of_char c :: nat) \<le> 90) \<or>
         (192 \<le> (of_char c :: nat) \<and> (of_char c :: nat) \<le> 214) \<or>
         (216 \<le> (of_char c :: nat) \<and> (of_char c :: nat) \<le> 222)
      then of_char c + 32 else of_char c)"
    by (rule of_char_lowerChar)
  show "trim (normalized email) = normalized email"
    and "toLowerCase (normalized email) = normalized email"
    using normalized_fixed by blast+
  show "snd (getAvatar env email sz) = Inl err \<longleftrightarrow>
         (\<exists>tr resp ct m. fetchResponse env email sz = (tr, Some resp) \<and> ok resp \<and>
            content_type resp = Some ct \<and> SUPPORTED_CONTENT_TYPES ct = Some m \<and>
            blob resp = Inl err)"
    by (rule getAvatar_rejection_iff)
  show "\<exists>rest. fst (getAvatar env email sz) =
                Fetch (contactsInstance env email @ route env email sz) # rest"
    by (rule getAvatar_first_fetch)
next
  assume "trim email \<noteq> []"
  then show "\<not> isWhiteSpace (hd (trim email))" and "\<not> isWhiteSpace (last (trim email))"
    using trim_ends by blast+
next
  assume "normalized email = l @ CHR ''@'' # r \<and> CHR ''@'' \<notin> set l"
  then show "domain email = Some (takeWhile (\<lambda>c. c \<noteq> CHR ''@'') r)"
    using domain_first_at by blast
next
  assume "CHR ''@'' \<notin> set (normalized email)"
  then show "domain email = None"
    by (rule domain_no_at)
qed

theorem domain_second_segment_witness:
  "domain ''bob@b.example@c.example'' = Some ''b.example'' \<and>
   domain '' Alice '' = None \<and>
   (\<exists>rest. fst (getAvatar demo_env '' Alice '' 80) =
       Fetch ''https://default.example/avatar/sha256-of-alice?s=80&d=identicon'' # rest) \<and>
   \<not> isWhiteSpace (hd (trim '' Alice '')) \<and>
   snd (getAvatar (serving_env \<lparr>ok = True, content_type = Some ''image/png'',
                                blob = Inl TypeError\<rparr>) ''alice'' 80) = Inl TypeError"
proof -
  let ?resp = "\<lparr>ok = True, content_type = Some ''image/png'',
                 blob = Inl TypeError :: js_error + byte list\<rparr>"
  have n1: "normalized ''bob@b.example@c.example'' = ''bob'' @ CHR ''@'' # ''b.example@c.example''"
    by code_simp
  have n2: "normalized '' Alice '' = ''alice''"
    by code_simp
  have n3: "normalized ''alice'' = ''alice''"
    by code_simp
  have t: "trim '' Alice '' = ''Alice''"
    by code_simp
  have u: "contactsInstance demo_env '' Alice '' @ route demo_env '' Alice '' 80 =
           ''https://default.example/avatar/sha256-of-alice?s=80&d=identicon''"
    by code_simp
  have tk: "takeWhile (\<lambda>c. c \<noteq> CHR ''@'') ''b.example@c.example'' = ''b.example''"
    by simp
  have nl: "CHR ''@'' \<notin> set ''bob''"
    by simp
  have a: "domain ''bob@b.example@c.example'' = Some ''b.example''"
    using domain_second_segment [where email = "''bob@b.example@c.example''"
        and l = "''bob''" and r = "''b.example@c.example''" and c = "CHR ''A''"
        and env = demo_env and sz = 80 and err = TypeError] n1 nl
    unfolding tk by blast
  have na2: "CHR ''@'' \<notin> set (normalized '' Alice '')"
    unfolding n2 by simp
  have tn: "trim '' Alice '' \<noteq> []"
    unfolding t by simp
  note th = domain_second_segment [where email = "'' Alice ''" and env = demo_env and sz = 80
        and c = "CHR ''A''" and l = "[]" and r = "[]" and err = TypeError]
  have b1: "domain '' Alice '' = None"
    using th na2 by blast
  have b2: "\<exists>rest. fst (getAvatar demo_env '' Alice '' 80) =
       Fetch (contactsInstance demo_env '' Alice '' @ route demo_env '' Alice '' 80) # rest"
    using th na2 by blast
  have b3: "\<not> isWhiteSpace (hd (trim '' Alice ''))"
    using th tn by blast
  have fr: "fetchResponse (serving_env ?resp) ''alice'' 80 =
     ([Fetch (contactsInstance (serving_env ?resp) ''alice'' @
              route (serving_env ?resp) ''alice'' 80)], Some ?resp)"
    by (rule serving_env_fetchResponse) simp
  have ex: "\<exists>tr resp ct m. fetchResponse (serving_env ?resp) ''alice'' 80 = (tr, Some resp) \<and>
       ok resp \<and> content_type resp = Some ct \<and> SUPPORTED_CONTENT_TYPES ct = Some m \<and>
       blob resp = Inl TypeError"
    using fr SUPPORTED_CONTENT_TYPES_png by (intro exI [of _ ?resp] exI conjI) simp_all
  have na: "CHR ''@'' \<notin> set (normalized ''alice'')"
    unfolding n3 by simp
  have c: "snd (getAvatar (serving_env ?resp) ''alice'' 80) = Inl TypeError"
    using domain_second_segment [where email = "''alice''" and env = "serving_env ?resp"
        and sz = 80 and err = TypeError and c = "CHR ''A''" and l = "[]" and r = "[]"] na ex
    by blast
  show ?thesis
    using a b1 b2 [unfolded u] b3 c by blast
qed

end
